theory Spec2Isabelle
  imports Main
begin

section \<open>Process group and Python values\<close>

text \<open>
  The utilities of \<^verbatim>\<open>utils/__init__.py\<close> run in every process of an MPI group
  (same program, many processes). A process sees the group through a communicator, of
  which the code reads \<^verbatim>\<open>rank\<close> only.
\<close>

record communicator =
  rank :: nat
  comm_size :: nat

text \<open>
  The exceptions that the modelled statements raise on their arguments: a missing
  dictionary key, an index into an empty sequence, and a write to or a flush of a closed
  stream (\<^verbatim>\<open>ValueError: I/O operation on closed file\<close>).
\<close>

datatype stream = Stdout | Stderr

datatype error = KeyError string | IndexError | ValueError stream

text \<open>\<^verbatim>\<open>d[k]\<close> on a dictionary and \<^verbatim>\<open>xs[-1]\<close> on a sequence.\<close>

definition getitem :: "(string \<rightharpoonup> 'v) \<Rightarrow> string \<Rightarrow> error + 'v" where
  "getitem d k = (case d k of None \<Rightarrow> Inl (KeyError k) | Some v \<Rightarrow> Inr v)"

definition getitem_last :: "'a list \<Rightarrow> error + 'a" where
  "getitem_last xs = (if xs = [] then Inl IndexError else Inr (last xs))"

text \<open>
  A statement's effect is the list of events it performed together with the exception
  it raised, if any. Sequencing stops at the first exception and keeps the events
  performed before it.
\<close>

type_synonym 'e effect = "'e list \<times> error option"

definition and_then :: "'e effect \<Rightarrow> 'e effect \<Rightarrow> 'e effect" where
  "and_then a b = (case snd a of None \<Rightarrow> (fst a @ fst b, snd b) | Some e \<Rightarrow> a)"

section \<open>ColorPrint\<close>

text \<open>
  Strings are lists of characters in the range 0 to 255. \<^verbatim>\<open>str.strip()\<close> without
  argument removes the leading and the trailing characters for which
  \<^verbatim>\<open>str.isspace\<close> holds; in this range these are the code points below.
\<close>

definition isspace :: "char \<Rightarrow> bool" where
  "isspace c = ((of_char c :: nat) \<in> {9, 10, 11, 12, 13, 28, 29, 30, 31, 32, 133, 160})"

definition strip :: "string \<Rightarrow> string" where
  "strip s = rev (dropWhile isspace (rev (dropWhile isspace s)))"

text \<open>
  The console: each of the two standard streams is open or closed. Writing to an open
  stream and flushing it are events; on a closed stream both raise.
\<close>

record console =
  stdout_closed :: bool
  stderr_closed :: bool

fun is_closed :: "console \<Rightarrow> stream \<Rightarrow> bool" where
  "is_closed con Stdout = stdout_closed con"
| "is_closed con Stderr = stderr_closed con"

datatype console_event = Write stream string | Flush stream

definition sys_write :: "console \<Rightarrow> stream \<Rightarrow> string \<Rightarrow> console_event effect" where
  "sys_write con s txt =
     (if is_closed con s then ([], Some (ValueError s)) else ([Write s txt], None))"

definition sys_flush :: "console \<Rightarrow> stream \<Rightarrow> console_event effect" where
  "sys_flush con s =
     (if is_closed con s then ([], Some (ValueError s)) else ([Flush s], None))"

definition ESC :: char where
  "ESC = CHR 0x1B"

definition newline :: string where
  "newline = [CHR 0x0A]"

text \<open>
  The six static methods. \<open>comm\<close> is the module's global \<^verbatim>\<open>MPI.COMM_WORLD\<close>,
  \<open>con\<close> the state of \<^verbatim>\<open>sys.stdout\<close> and \<^verbatim>\<open>sys.stderr\<close>,
  \<open>ending\<close> the parameter \<^verbatim>\<open>end\<close> (default \<open>newline\<close>).
\<close>

definition print_fail :: "communicator \<Rightarrow> console \<Rightarrow> string \<Rightarrow> string \<Rightarrow> console_event effect" where
  "print_fail comm con message ending =
     (if rank comm = 0 then
        and_then (sys_write con Stderr ((ESC # ''[1;31m'') @ strip message @ (ESC # ''[0m'') @ ending))
                 (sys_flush con Stderr)
      else ([], None))"

definition print_pass :: "communicator \<Rightarrow> console \<Rightarrow> string \<Rightarrow> string \<Rightarrow> console_event effect" where
  "print_pass comm con message ending =
     (if rank comm = 0 then
        and_then (sys_write con Stdout ((ESC # ''[1;32m'') @ strip message @ (ESC # ''[0m'') @ ending))
                 (sys_flush con Stdout)
      else ([], None))"

definition print_warn :: "communicator \<Rightarrow> console \<Rightarrow> string \<Rightarrow> string \<Rightarrow> console_event effect" where
  "print_warn comm con message ending =
     (if rank comm = 0 then
        and_then (sys_write con Stderr ((ESC # ''[1;33m'') @ strip message @ (ESC # ''[0m'') @ ending))
                 (sys_flush con Stderr)
      else ([], None))"

definition print_info :: "communicator \<Rightarrow> console \<Rightarrow> string \<Rightarrow> string \<Rightarrow> console_event effect" where
  "print_info comm con message ending =
     (if rank comm = 0 then
        and_then (sys_write con Stdout ((ESC # ''[1;34m'') @ strip message @ (ESC # ''[0m'') @ ending))
                 (sys_flush con Stdout)
      else ([], None))"

definition print_color :: "communicator \<Rightarrow> console \<Rightarrow> string \<Rightarrow> string \<Rightarrow> console_event effect" where
  "print_color comm con message ending =
     (if rank comm = 0 then
        and_then (sys_write con Stdout ((ESC # ''[1;36m'') @ strip message @ (ESC # ''[0m'') @ ending))
                 (sys_flush con Stdout)
      else ([], None))"

definition print_bold :: "communicator \<Rightarrow> console \<Rightarrow> string \<Rightarrow> string \<Rightarrow> console_event effect" where
  "print_bold comm con message ending =
     (if rank comm = 0 then
        and_then (sys_write con Stdout ((ESC # ''[1;37m'') @ strip message @ (ESC # ''[0m'') @ ending))
                 (sys_flush con Stdout)
      else ([], None))"

section \<open>setup\_logger\_mpi\<close>

text \<open>
  The numeric severities of the \<^verbatim>\<open>logging\<close> module, a handler with its own
  threshold, and a logger with a threshold and its handlers in the order they were added.
\<close>

definition NOTSET :: int where "NOTSET = 0"
definition INFO :: int where "INFO = 20"
definition CRITICAL :: int where "CRITICAL = 50"

datatype sink = StreamSink | FileSink string

record handler =
  sink :: sink
  hlevel :: int

record logger =
  level :: int
  handlers :: "handler list"

datatype log_event = Emit sink int string

text \<open>
  Modelled from the spec: the dispatch of the \<^verbatim>\<open>logging\<close> library, which is not
  part of the repository. A message of severity \<open>lvl\<close> is dropped by a logger whose
  threshold is above \<open>lvl\<close> (on the other processes the logger "is forced to the most
  severe (critical-only) level"); otherwise it goes to each handler whose own threshold
  it reaches. The record a handler emits is kept as sink, severity and message; the
  formatter's time stamp and logger name are left out.
\<close>

definition callHandlers :: "logger \<Rightarrow> int \<Rightarrow> string \<Rightarrow> log_event list" where
  "callHandlers lg lvl msg =
     map (\<lambda>h. Emit (sink h) lvl msg) (filter (\<lambda>h. hlevel h \<le> lvl) (handlers lg))"

text \<open>
  Modelled from the spec: the threshold of the logger itself, also part of the
  \<^verbatim>\<open>logging\<close> library (\<^verbatim>\<open>logger.info\<close> is \<open>logger_log\<close> at \<open>INFO\<close>,
  \<^verbatim>\<open>logger.critical\<close> at \<open>CRITICAL\<close>). Handlers of parent loggers are not
  modelled; a message the logger drops reaches none of them either.
\<close>

definition logger_log :: "logger \<Rightarrow> int \<Rightarrow> string \<Rightarrow> log_event list" where
  "logger_log lg lvl msg = (if level lg \<le> lvl then callHandlers lg lvl msg else [])"

text \<open>\<^verbatim>\<open>str\<close> of a non-negative integer, for the f-string of the second message.\<close>

fun str_nat :: "nat \<Rightarrow> string" where
  "str_nat n =
     (if n < 10 then [char_of (48 + n)]
      else str_nat (n div 10) @ [char_of (48 + n mod 10)])"

declare str_nat.simps [simp del]

text \<open>
  \<open>lg0\<close> is the logger that \<^verbatim>\<open>logging.getLogger\<close> returns (the same object at every
  call, with the handlers added so far); \<open>version\<close> and \<open>git_commit_hash\<close> are the
  two attributes read from \<^verbatim>\<open>dolfinx\<close>. The parameter \<open>root_priority\<close> is not used
  by the body. The result is the configured logger and what the three calls at the end
  of the body emitted.
\<close>

definition setup_logger_mpi ::
  "communicator \<Rightarrow> logger \<Rightarrow> string \<Rightarrow> string \<Rightarrow> int \<Rightarrow> logger \<times> log_event list" where
  "setup_logger_mpi comm lg0 version git_commit_hash root_priority =
     (let r = rank comm;
          root_process_log_level = INFO;
          lg1 = lg0\<lparr>level := (if r = 0 then root_process_log_level else CRITICAL)\<rparr>;
          console_handler = \<lparr>sink = StreamSink, hlevel = NOTSET\<rparr>;
          file_handler = \<lparr>sink = FileSink ''evolution.log'', hlevel = NOTSET\<rparr>;
          file_handler' = file_handler\<lparr>hlevel := (if r = 0 then root_process_log_level else CRITICAL)\<rparr>;
          console_handler' = console_handler\<lparr>hlevel := (if r = 0 then root_process_log_level else CRITICAL)\<rparr>;
          lg2 = lg1\<lparr>handlers := handlers lg1 @ [console_handler']\<rparr>;
          lg3 = lg2\<lparr>handlers := handlers lg2 @ [file_handler']\<rparr>
      in (lg3,
          logger_log lg3 INFO ''The root process spawning an evolution computation (rank 0)''
          @ logger_log lg3 INFO (''This is process '' @ str_nat r @ '' reporting'')
          @ logger_log lg3 CRITICAL
              (''DOLFINx version: '' @ version @ '' based on GIT commit: '' @ git_commit_hash
               @ '' of https://github.com/FEniCS/dolfinx/'')))"

section \<open>ResultsStorage\<close>

text \<open>
  A finite-element function knows its function space, which knows its mesh; a mesh is
  identified by a number (the identity of the mesh object).
\<close>

record function_space =
  mesh :: nat

record fem_function =
  fname :: string
  function_space :: function_space

record ResultsStorage =
  comm :: communicator
  prefix :: string

text \<open>
  What a call does to the output directory, as events in program order. The parameters
  (\<open>'p\<close>) and the samples of the history (\<open>'t\<close>) are passed through unchanged, so they
  stay abstract. Opening and writing files is taken to succeed: the exceptions modelled
  are the ones the statements of \<^verbatim>\<open>store_results\<close> raise on its arguments.
\<close>

datatype ('p, 't) store_event =
    FileOpen string
  | YamlDump string 'p
  | JsonDump string "string \<rightharpoonup> 't list"
  | FileClose string
  | XdmfOpen string
  | WriteMesh nat
  | WriteFunction fem_function 't
  | XdmfClose string

definition store_results ::
  "ResultsStorage \<Rightarrow> 'p \<Rightarrow> (string \<rightharpoonup> 't list) \<Rightarrow> (string \<rightharpoonup> fem_function)
     \<Rightarrow> ('p, 't) store_event effect" where
  "store_results self parameters history_data state =
     (case getitem history_data ''load'' of Inl e \<Rightarrow> ([], Some e) | Inr series \<Rightarrow>
      case getitem_last series of Inl e \<Rightarrow> ([], Some e) | Inr t \<Rightarrow>
      case getitem state ''u'' of Inl e \<Rightarrow> ([], Some e) | Inr u \<Rightarrow>
      case getitem state ''alpha'' of Inl e \<Rightarrow> ([], Some e) | Inr alpha \<Rightarrow>
        ((if rank (comm self) = 0 then
            [FileOpen (prefix self @ ''/parameters.yaml''),
             YamlDump (prefix self @ ''/parameters.yaml'') parameters,
             FileClose (prefix self @ ''/parameters.yaml'')]
          else [])
         @ [XdmfOpen (prefix self @ ''/simulation_results.xdmf''),
            WriteMesh (mesh (function_space u)),
            WriteFunction u t,
            WriteFunction alpha t,
            XdmfClose (prefix self @ ''/simulation_results.xdmf'')]
         @ (if rank (comm self) = 0 then
              [FileOpen (prefix self @ ''/time_data.json''),
               JsonDump (prefix self @ ''/time_data.json'') history_data,
               FileClose (prefix self @ ''/time_data.json'')]
            else []),
         None))"

text \<open>
  The events of a run of \<open>n\<close> cooperating processes, each calling \<^verbatim>\<open>store_results\<close>
  with the same arguments, rank by rank.
\<close>

definition spmd_store_results ::
  "nat \<Rightarrow> string \<Rightarrow> 'p \<Rightarrow> (string \<rightharpoonup> 't list) \<Rightarrow> (string \<rightharpoonup> fem_function)
     \<Rightarrow> ('p, 't) store_event list" where
  "spmd_store_results n pre parameters history_data state =
     concat (map (\<lambda>r. fst (store_results \<lparr>comm = \<lparr>rank = r, comm_size = n\<rparr>, prefix = pre\<rparr>
                              parameters history_data state)) [0..<n])"

text \<open>Classifying the events.\<close>

fun is_yaml_dump :: "('p, 't) store_event \<Rightarrow> bool" where
  "is_yaml_dump (YamlDump _ _) = True"
| "is_yaml_dump _ = False"

fun is_json_dump :: "('p, 't) store_event \<Rightarrow> bool" where
  "is_json_dump (JsonDump _ _) = True"
| "is_json_dump _ = False"

fun is_mesh_write :: "('p, 't) store_event \<Rightarrow> bool" where
  "is_mesh_write (WriteMesh _) = True"
| "is_mesh_write _ = False"

fun is_function_write :: "('p, 't) store_event \<Rightarrow> bool" where
  "is_function_write (WriteFunction _ _) = True"
| "is_function_write _ = False"


section \<open>Properties of store\_results\<close>

lemma store_results_valid:
  assumes "history_data ''load'' = Some series" and "series \<noteq> []"
    and "state ''u'' = Some u" and "state ''alpha'' = Some alpha"
  shows "store_results self parameters history_data state =
     ((if rank (comm self) = 0 then
            [FileOpen (prefix self @ ''/parameters.yaml''),
             YamlDump (prefix self @ ''/parameters.yaml'') parameters,
             FileClose (prefix self @ ''/parameters.yaml'')]
          else [])
         @ [XdmfOpen (prefix self @ ''/simulation_results.xdmf''),
            WriteMesh (mesh (function_space u)),
            WriteFunction u (last series),
            WriteFunction alpha (last series),
            XdmfClose (prefix self @ ''/simulation_results.xdmf'')]
         @ (if rank (comm self) = 0 then
              [FileOpen (prefix self @ ''/time_data.json''),
               JsonDump (prefix self @ ''/time_data.json'') history_data,
               FileClose (prefix self @ ''/time_data.json'')]
            else []),
         None)"
  using assms by (simp add: store_results_def getitem_def getitem_last_def)

lemma store_results_raises_first:
  assumes "snd (store_results self parameters history_data state) \<noteq> None"
  shows "fst (store_results self parameters history_data state) = []"
  using assms
  by (auto simp add: store_results_def getitem_def getitem_last_def split: option.splits sum.splits if_splits)

lemma store_results_other_rank:
  assumes "rank (comm self) \<noteq> 0"
  shows "filter (\<lambda>e. is_yaml_dump e \<or> is_json_dump e)
           (fst (store_results self parameters history_data state)) = []"
  using assms
  by (auto simp add: store_results_def getitem_def getitem_last_def split: option.splits sum.splits)



lemma concat_map_Nil: "(\<And>x. x \<in> set xs \<Longrightarrow> f x = []) \<Longrightarrow> concat (map f xs) = []"
  by (induction xs) auto

lemma filter_spmd:
  assumes "0 < n"
    and other: "\<And>self. rank (comm self) \<noteq> 0 \<Longrightarrow>
           filter P (fst (store_results self parameters history_data state)) = []"
  shows "filter P (spmd_store_results n pre parameters history_data state)
     = filter P
         (fst (store_results \<lparr>comm = \<lparr>rank = 0, comm_size = n\<rparr>, prefix = pre\<rparr> parameters history_data state))"
proof -
  let ?run = "\<lambda>r. fst (store_results \<lparr>comm = \<lparr>rank = r, comm_size = n\<rparr>, prefix = pre\<rparr>
                              parameters history_data state)"
  have split: "[0..<n] = 0 # [Suc 0..<n]"
    using assms(1) by (simp add: upt_conv_Cons)
  have rest: "concat (map (\<lambda>r. filter P (?run r)) [Suc 0..<n]) = []"
  proof (rule concat_map_Nil)
    fix r assume "r \<in> set [Suc 0..<n]"
    then have "rank (comm \<lparr>comm = \<lparr>rank = r, comm_size = n\<rparr>, prefix = pre\<rparr>) \<noteq> 0" by simp
    then show "filter P (?run r) = []" by (rule other)
  qed
  have "filter P (spmd_store_results n pre parameters history_data state)
      = concat (map (\<lambda>r. filter P (?run r)) [0..<n])"
    by (simp add: spmd_store_results_def filter_concat comp_def)
  also have "\<dots> = filter P (?run 0)"
    by (simp only: split list.map concat.simps rest append_Nil2)
  finally show ?thesis .
qed

lemma yaml_other_rank:
  "rank (comm self) \<noteq> 0 \<Longrightarrow>
     filter is_yaml_dump (fst (store_results self parameters history_data state)) = []"
  by (auto simp add: store_results_def getitem_def getitem_last_def split: option.splits sum.splits)

lemma json_other_rank:
  "rank (comm self) \<noteq> 0 \<Longrightarrow>
     filter is_json_dump (fst (store_results self parameters history_data state)) = []"
  by (auto simp add: store_results_def getitem_def getitem_last_def split: option.splits sum.splits)

text \<open>
  C2. The parameters file and \<^verbatim>\<open>time_data.json\<close> are written by the process of
  rank 0 and by no other: a process of another rank dumps neither, whatever the
  arguments; on arguments the call accepts, a process dumps each file once if its rank is
  0 and not at all otherwise; and a run of \<open>n\<close> processes dumps each file exactly once.
\<close>

theorem store_results_coordinator_files:
  "(rank (comm self) \<noteq> 0 \<longrightarrow>
      filter (\<lambda>e. is_yaml_dump e \<or> is_json_dump e) (fst (store_results self p h s)) = [])
   \<and> (h ''load'' = Some ts \<and> ts \<noteq> [] \<and> s ''u'' = Some u \<and> s ''alpha'' = Some a \<longrightarrow>
        filter is_yaml_dump (fst (store_results self p h s))
          = (if rank (comm self) = 0 then [YamlDump (prefix self @ ''/parameters.yaml'') p] else [])
      \<and> filter is_json_dump (fst (store_results self p h s))
          = (if rank (comm self) = 0 then [JsonDump (prefix self @ ''/time_data.json'') h] else [])
      \<and> (0 < n \<longrightarrow>
            filter is_yaml_dump (spmd_store_results n pre p h s)
              = [YamlDump (pre @ ''/parameters.yaml'') p]
          \<and> filter is_json_dump (spmd_store_results n pre p h s)
              = [JsonDump (pre @ ''/time_data.json'') h]))"
proof (intro conjI impI)
  assume "rank (comm self) \<noteq> 0"
  then show "filter (\<lambda>e. is_yaml_dump e \<or> is_json_dump e) (fst (store_results self p h s)) = []"
    by (rule store_results_other_rank)
next
  assume v: "h ''load'' = Some ts \<and> ts \<noteq> [] \<and> s ''u'' = Some u \<and> s ''alpha'' = Some a"
  then show "filter is_yaml_dump (fst (store_results self p h s))
          = (if rank (comm self) = 0 then [YamlDump (prefix self @ ''/parameters.yaml'') p] else [])"
    by (simp add: store_results_valid)
next
  assume v: "h ''load'' = Some ts \<and> ts \<noteq> [] \<and> s ''u'' = Some u \<and> s ''alpha'' = Some a"
  then show "filter is_json_dump (fst (store_results self p h s))
          = (if rank (comm self) = 0 then [JsonDump (prefix self @ ''/time_data.json'') h] else [])"
    by (simp add: store_results_valid)
next
  assume v: "h ''load'' = Some ts \<and> ts \<noteq> [] \<and> s ''u'' = Some u \<and> s ''alpha'' = Some a"
    and n: "0 < n"
  have "filter is_yaml_dump (spmd_store_results n pre p h s)
      = filter is_yaml_dump
          (fst (store_results \<lparr>comm = \<lparr>rank = 0, comm_size = n\<rparr>, prefix = pre\<rparr> p h s))"
    using n yaml_other_rank by (rule filter_spmd)
  with v show "filter is_yaml_dump (spmd_store_results n pre p h s)
              = [YamlDump (pre @ ''/parameters.yaml'') p]"
    by (simp add: store_results_valid)
next
  assume v: "h ''load'' = Some ts \<and> ts \<noteq> [] \<and> s ''u'' = Some u \<and> s ''alpha'' = Some a"
    and n: "0 < n"
  have "filter is_json_dump (spmd_store_results n pre p h s)
      = filter is_json_dump
          (fst (store_results \<lparr>comm = \<lparr>rank = 0, comm_size = n\<rparr>, prefix = pre\<rparr> p h s))"
    using n json_other_rank by (rule filter_spmd)
  with v show "filter is_json_dump (spmd_store_results n pre p h s)
              = [JsonDump (pre @ ''/time_data.json'') h]"
    by (simp add: store_results_valid)
qed

theorem store_results_coordinator_files_witness:
  "filter (\<lambda>e. is_yaml_dump e \<or> is_json_dump e)
     (fst (store_results \<lparr>comm = \<lparr>rank = 2, comm_size = 3\<rparr>, prefix = ''out''\<rparr> (7::nat)
        [''load'' \<mapsto> [0, 1, 2::int]]
        [''u'' \<mapsto> \<lparr>fname = ''u'', function_space = \<lparr>mesh = 1\<rparr>\<rparr>,
         ''alpha'' \<mapsto> \<lparr>fname = ''alpha'', function_space = \<lparr>mesh = 1\<rparr>\<rparr>])) = []
   \<and> filter is_yaml_dump
       (spmd_store_results 3 ''out'' (7::nat)
        [''load'' \<mapsto> [0, 1, 2::int]]
        [''u'' \<mapsto> \<lparr>fname = ''u'', function_space = \<lparr>mesh = 1\<rparr>\<rparr>,
         ''alpha'' \<mapsto> \<lparr>fname = ''alpha'', function_space = \<lparr>mesh = 1\<rparr>\<rparr>])
       = [YamlDump ''out/parameters.yaml'' 7]
   \<and> filter is_json_dump
       (spmd_store_results 3 ''out'' (7::nat)
        [''load'' \<mapsto> [0, 1, 2::int]]
        [''u'' \<mapsto> \<lparr>fname = ''u'', function_space = \<lparr>mesh = 1\<rparr>\<rparr>,
         ''alpha'' \<mapsto> \<lparr>fname = ''alpha'', function_space = \<lparr>mesh = 1\<rparr>\<rparr>])
       = [JsonDump ''out/time_data.json'' [''load'' \<mapsto> [0, 1, 2::int]]]"
  using store_results_coordinator_files
    [of "\<lparr>comm = \<lparr>rank = 2, comm_size = 3\<rparr>, prefix = ''out''\<rparr>" "7::nat"
        "[''load'' \<mapsto> [0, 1, 2::int]]"
        "[''u'' \<mapsto> \<lparr>fname = ''u'', function_space = \<lparr>mesh = 1\<rparr>\<rparr>,
          ''alpha'' \<mapsto> \<lparr>fname = ''alpha'', function_space = \<lparr>mesh = 1\<rparr>\<rparr>]"
        "[0, 1, 2]" "\<lparr>fname = ''u'', function_space = \<lparr>mesh = 1\<rparr>\<rparr>"
        "\<lparr>fname = ''alpha'', function_space = \<lparr>mesh = 1\<rparr>\<rparr>" 3 "''out''"]
  by simp



text \<open>
  C6. On arguments the call accepts, the mesh is written exactly once, before the
  fields, and every field written carries the last value of the \<^verbatim>\<open>load\<close> series:
  the writes into the archive are the mesh of \<^verbatim>\<open>u\<close>, then \<^verbatim>\<open>u\<close>, then
  \<^verbatim>\<open>alpha\<close>, both at that value.
\<close>

theorem store_results_mesh_then_fields:
  assumes "h ''load'' = Some ts" and "ts \<noteq> []"
    and "s ''u'' = Some u" and "s ''alpha'' = Some a"
  shows "length (filter is_mesh_write (fst (store_results self p h s))) = 1
    \<and> filter (\<lambda>e. is_mesh_write e \<or> is_function_write e) (fst (store_results self p h s))
        = [WriteMesh (mesh (function_space u)), WriteFunction u (last ts), WriteFunction a (last ts)]"
  using assms by (simp add: store_results_valid)

theorem store_results_mesh_then_fields_witness:
  "length (filter is_mesh_write
      (fst (store_results \<lparr>comm = \<lparr>rank = 0, comm_size = 2\<rparr>, prefix = ''out''\<rparr> (7::nat)
        [''load'' \<mapsto> [0, 1, 2::int]]
        [''u'' \<mapsto> \<lparr>fname = ''u'', function_space = \<lparr>mesh = 4\<rparr>\<rparr>,
         ''alpha'' \<mapsto> \<lparr>fname = ''alpha'', function_space = \<lparr>mesh = 4\<rparr>\<rparr>]))) = 1
   \<and> filter (\<lambda>e. is_mesh_write e \<or> is_function_write e)
      (fst (store_results \<lparr>comm = \<lparr>rank = 0, comm_size = 2\<rparr>, prefix = ''out''\<rparr> (7::nat)
        [''load'' \<mapsto> [0, 1, 2::int]]
        [''u'' \<mapsto> \<lparr>fname = ''u'', function_space = \<lparr>mesh = 4\<rparr>\<rparr>,
         ''alpha'' \<mapsto> \<lparr>fname = ''alpha'', function_space = \<lparr>mesh = 4\<rparr>\<rparr>]))
     = [WriteMesh 4,
        WriteFunction \<lparr>fname = ''u'', function_space = \<lparr>mesh = 4\<rparr>\<rparr> 2,
        WriteFunction \<lparr>fname = ''alpha'', function_space = \<lparr>mesh = 4\<rparr>\<rparr> 2]"
  using store_results_mesh_then_fields
    [of "[''load'' \<mapsto> [0, 1, 2::int]]" "[0, 1, 2]"
        "[''u'' \<mapsto> \<lparr>fname = ''u'', function_space = \<lparr>mesh = 4\<rparr>\<rparr>,
          ''alpha'' \<mapsto> \<lparr>fname = ''alpha'', function_space = \<lparr>mesh = 4\<rparr>\<rparr>]"
        "\<lparr>fname = ''u'', function_space = \<lparr>mesh = 4\<rparr>\<rparr>"
        "\<lparr>fname = ''alpha'', function_space = \<lparr>mesh = 4\<rparr>\<rparr>"
        "\<lparr>comm = \<lparr>rank = 0, comm_size = 2\<rparr>, prefix = ''out''\<rparr>" "7::nat"]
  by simp

text \<open>
  C10. With a history that has no \<^verbatim>\<open>load\<close> key the call raises KeyError, with an
  empty \<^verbatim>\<open>load\<close> series it raises IndexError; in both cases it has performed no
  event: no file is opened or written.
\<close>

theorem store_results_no_load:
  assumes "h ''load'' = None \<or> h ''load'' = Some []"
  shows "store_results self p h s
       = ([], Some (if h ''load'' = None then KeyError ''load'' else IndexError))"
  using assms by (auto simp add: store_results_def getitem_def getitem_last_def)

theorem store_results_no_load_witness:
  "store_results \<lparr>comm = \<lparr>rank = 0, comm_size = 1\<rparr>, prefix = ''out''\<rparr> (7::nat)
      (Map.empty :: string \<rightharpoonup> int list)
      [''u'' \<mapsto> \<lparr>fname = ''u'', function_space = \<lparr>mesh = 1\<rparr>\<rparr>,
       ''alpha'' \<mapsto> \<lparr>fname = ''alpha'', function_space = \<lparr>mesh = 1\<rparr>\<rparr>]
     = ([], Some (KeyError ''load''))
   \<and> store_results \<lparr>comm = \<lparr>rank = 0, comm_size = 1\<rparr>, prefix = ''out''\<rparr> (7::nat)
      [''load'' \<mapsto> ([] :: int list)]
      [''u'' \<mapsto> \<lparr>fname = ''u'', function_space = \<lparr>mesh = 1\<rparr>\<rparr>,
       ''alpha'' \<mapsto> \<lparr>fname = ''alpha'', function_space = \<lparr>mesh = 1\<rparr>\<rparr>]
     = ([], Some IndexError)"
  using store_results_no_load
    [of "Map.empty :: string \<rightharpoonup> int list"
        "\<lparr>comm = \<lparr>rank = 0, comm_size = 1\<rparr>, prefix = ''out''\<rparr>" "7::nat"
        "[''u'' \<mapsto> \<lparr>fname = ''u'', function_space = \<lparr>mesh = 1\<rparr>\<rparr>,
          ''alpha'' \<mapsto> \<lparr>fname = ''alpha'', function_space = \<lparr>mesh = 1\<rparr>\<rparr>]"]
    store_results_no_load
    [of "[''load'' \<mapsto> ([] :: int list)]"
        "\<lparr>comm = \<lparr>rank = 0, comm_size = 1\<rparr>, prefix = ''out''\<rparr>" "7::nat"
        "[''u'' \<mapsto> \<lparr>fname = ''u'', function_space = \<lparr>mesh = 1\<rparr>\<rparr>,
          ''alpha'' \<mapsto> \<lparr>fname = ''alpha'', function_space = \<lparr>mesh = 1\<rparr>\<rparr>]"]
  by simp

text \<open>
  C1, as stated, fails: the body reads the two keys \<^verbatim>\<open>u\<close> and \<^verbatim>\<open>alpha\<close> of
  the state and writes these two fields; a field under any other key is not written. Here
  the state has a third field \<^verbatim>\<open>v\<close>, the last load is 2, and the archive gets no
  entry for \<^verbatim>\<open>v\<close>.
\<close>

theorem store_results_every_key_counterexample:
  "[''u'' \<mapsto> \<lparr>fname = ''u'', function_space = \<lparr>mesh = 1\<rparr>\<rparr>,
    ''alpha'' \<mapsto> \<lparr>fname = ''alpha'', function_space = \<lparr>mesh = 1\<rparr>\<rparr>,
    ''v'' \<mapsto> \<lparr>fname = ''v'', function_space = \<lparr>mesh = 1\<rparr>\<rparr>] ''v''
     = Some \<lparr>fname = ''v'', function_space = \<lparr>mesh = 1\<rparr>\<rparr>
   \<and> WriteFunction \<lparr>fname = ''v'', function_space = \<lparr>mesh = 1\<rparr>\<rparr> 2
     \<notin> set (fst (store_results \<lparr>comm = \<lparr>rank = 0, comm_size = 1\<rparr>, prefix = ''out''\<rparr> (7::nat)
        [''load'' \<mapsto> [0, 1, 2::int]]
        [''u'' \<mapsto> \<lparr>fname = ''u'', function_space = \<lparr>mesh = 1\<rparr>\<rparr>,
         ''alpha'' \<mapsto> \<lparr>fname = ''alpha'', function_space = \<lparr>mesh = 1\<rparr>\<rparr>,
         ''v'' \<mapsto> \<lparr>fname = ''v'', function_space = \<lparr>mesh = 1\<rparr>\<rparr>]))"
  by (simp add: store_results_def getitem_def getitem_last_def)

text \<open>
  C1, amended. With a history whose \<^verbatim>\<open>load\<close> series is not empty and a state
  that has the keys \<^verbatim>\<open>u\<close> and \<^verbatim>\<open>alpha\<close>, the fields written are exactly these
  two, in this order, each tagged with the last value of the series, whatever other keys
  the state has.
\<close>

theorem store_results_writes_u_alpha:
  assumes "h ''load'' = Some ts" and "ts \<noteq> []"
    and "s ''u'' = Some u" and "s ''alpha'' = Some a"
  shows "filter is_function_write (fst (store_results self p h s))
       = [WriteFunction u (last ts), WriteFunction a (last ts)]"
  using assms by (simp add: store_results_valid)

theorem store_results_writes_u_alpha_witness:
  "filter is_function_write
     (fst (store_results \<lparr>comm = \<lparr>rank = 1, comm_size = 2\<rparr>, prefix = ''out''\<rparr> (7::nat)
        [''load'' \<mapsto> [0, 1, 2::int]]
        [''u'' \<mapsto> \<lparr>fname = ''u'', function_space = \<lparr>mesh = 1\<rparr>\<rparr>,
         ''alpha'' \<mapsto> \<lparr>fname = ''alpha'', function_space = \<lparr>mesh = 1\<rparr>\<rparr>,
         ''v'' \<mapsto> \<lparr>fname = ''v'', function_space = \<lparr>mesh = 1\<rparr>\<rparr>]))
     = [WriteFunction \<lparr>fname = ''u'', function_space = \<lparr>mesh = 1\<rparr>\<rparr> 2,
        WriteFunction \<lparr>fname = ''alpha'', function_space = \<lparr>mesh = 1\<rparr>\<rparr> 2]"
  using store_results_writes_u_alpha
    [of "[''load'' \<mapsto> [0, 1, 2::int]]" "[0, 1, 2]"
        "[''u'' \<mapsto> \<lparr>fname = ''u'', function_space = \<lparr>mesh = 1\<rparr>\<rparr>,
          ''alpha'' \<mapsto> \<lparr>fname = ''alpha'', function_space = \<lparr>mesh = 1\<rparr>\<rparr>,
          ''v'' \<mapsto> \<lparr>fname = ''v'', function_space = \<lparr>mesh = 1\<rparr>\<rparr>]"
        "\<lparr>fname = ''u'', function_space = \<lparr>mesh = 1\<rparr>\<rparr>"
        "\<lparr>fname = ''alpha'', function_space = \<lparr>mesh = 1\<rparr>\<rparr>"
        "\<lparr>comm = \<lparr>rank = 1, comm_size = 2\<rparr>, prefix = ''out''\<rparr>" "7::nat"]
  by simp




section \<open>Properties of ColorPrint and of the logger\<close>

lemma colour_write_flush:
  "and_then (sys_write con s txt) (sys_flush con s)
     = (if is_closed con s then ([], Some (ValueError s)) else ([Write s txt, Flush s], None))"
  by (simp add: and_then_def sys_write_def sys_flush_def)

lemma strip_unpadded:
  assumes "m = [] \<or> (\<not> isspace (hd m) \<and> \<not> isspace (last m))"
  shows "strip m = m"
proof (cases "m = []")
  case True
  then show ?thesis by (simp add: strip_def)
next
  case False
  with assms have h: "\<not> isspace (hd m)" and l: "\<not> isspace (last m)" by auto
  from h have "dropWhile isspace m = m"
    by (simp add: dropWhile_eq_self_iff)
  moreover from False l have "dropWhile isspace (rev m) = rev m"
    by (simp add: dropWhile_eq_self_iff hd_rev)
  ultimately show ?thesis by (simp add: strip_def)
qed

lemma setup_logger_mpi_level:
  "level (fst (setup_logger_mpi c lg0 v g rp)) = (if rank c = 0 then INFO else CRITICAL)"
  by (simp add: setup_logger_mpi_def Let_def)

lemma callHandlers_severity:
  "ev \<in> set (callHandlers lg lvl msg) \<Longrightarrow> \<exists>k. ev = Emit k lvl msg"
  by (auto simp add: callHandlers_def)

text \<open>
  C4. In a process whose rank is not 0, each of the six methods of ColorPrint performs
  no event at all (no write and no flush, on either stream) for every string and every
  terminator; a message below CRITICAL sent to the logger that
  \<^verbatim>\<open>setup_logger_mpi\<close> returns reaches no handler, neither the console one nor the
  file one; and what the three calls inside \<^verbatim>\<open>setup_logger_mpi\<close> emit is of
  severity CRITICAL only.
\<close>

theorem other_ranks_are_silent:
  assumes "rank c \<noteq> 0"
  shows "print_fail c con m e = ([], None) \<and> print_pass c con m e = ([], None)
    \<and> print_warn c con m e = ([], None) \<and> print_info c con m e = ([], None)
    \<and> print_color c con m e = ([], None) \<and> print_bold c con m e = ([], None)
    \<and> (\<forall>lvl msg. lvl < CRITICAL \<longrightarrow>
          logger_log (fst (setup_logger_mpi c lg0 v g rp)) lvl msg = [])
    \<and> (\<forall>ev \<in> set (snd (setup_logger_mpi c lg0 v g rp)). \<exists>k msg. ev = Emit k CRITICAL msg)"
proof (intro conjI allI impI ballI)
  fix lvl :: int and msg :: string
  assume "lvl < CRITICAL"
  with assms show "logger_log (fst (setup_logger_mpi c lg0 v g rp)) lvl msg = []"
    by (simp add: logger_log_def setup_logger_mpi_level)
next
  fix ev
  assume ev: "ev \<in> set (snd (setup_logger_mpi c lg0 v g rp))"
  define lg where "lg = fst (setup_logger_mpi c lg0 v g rp)"
  have lv: "level lg = CRITICAL"
    using assms by (simp add: lg_def setup_logger_mpi_level)
  have "snd (setup_logger_mpi c lg0 v g rp)
      = logger_log lg INFO ''The root process spawning an evolution computation (rank 0)''
        @ logger_log lg INFO (''This is process '' @ str_nat (rank c) @ '' reporting'')
        @ logger_log lg CRITICAL
            (''DOLFINx version: '' @ v @ '' based on GIT commit: '' @ g
             @ '' of https://github.com/FEniCS/dolfinx/'')"
    by (simp add: lg_def setup_logger_mpi_def Let_def)
  with ev lv have "ev \<in> set (callHandlers lg CRITICAL
            (''DOLFINx version: '' @ v @ '' based on GIT commit: '' @ g
             @ '' of https://github.com/FEniCS/dolfinx/''))"
    by (simp add: logger_log_def INFO_def CRITICAL_def)
  then show "\<exists>k msg. ev = Emit k CRITICAL msg"
    using callHandlers_severity by blast
qed (use assms in \<open>simp_all add: print_fail_def print_pass_def print_warn_def print_info_def
      print_color_def print_bold_def\<close>)

theorem other_ranks_are_silent_witness:
  "print_fail \<lparr>rank = 1, comm_size = 2\<rparr> \<lparr>stdout_closed = False, stderr_closed = False\<rparr>
      ''diverged'' newline = ([], None)
   \<and> print_info \<lparr>rank = 1, comm_size = 2\<rparr> \<lparr>stdout_closed = False, stderr_closed = False\<rparr>
      ''diverged'' newline = ([], None)
   \<and> logger_log (fst (setup_logger_mpi \<lparr>rank = 1, comm_size = 2\<rparr> \<lparr>level = 0, handlers = []\<rparr>
                        ''0.7.2'' ''abc'' 20)) 40 ''diverged'' = []"
  using other_ranks_are_silent
    [of "\<lparr>rank = 1, comm_size = 2\<rparr>" "\<lparr>stdout_closed = False, stderr_closed = False\<rparr>"
        "''diverged''" newline "\<lparr>level = 0, handlers = []\<rparr>" "''0.7.2''" "''abc''" 20]
  by (simp add: CRITICAL_def)

text \<open>
  C5, as stated, fails: the methods write \<^verbatim>\<open>message.strip()\<close>, not the given
  string. On rank 0, \<^verbatim>\<open>print_fail(" hi")\<close> writes the escape prefix, \<^verbatim>\<open>hi\<close>
  without the blank, the escape suffix and the terminator.
\<close>

theorem print_fail_given_string_counterexample:
  "fst (print_fail \<lparr>rank = 0, comm_size = 1\<rparr> \<lparr>stdout_closed = False, stderr_closed = False\<rparr>
         '' hi'' newline)
     = [Write Stderr ((ESC # ''[1;31m'') @ ''hi'' @ (ESC # ''[0m'') @ newline), Flush Stderr]
   \<and> fst (print_fail \<lparr>rank = 0, comm_size = 1\<rparr> \<lparr>stdout_closed = False, stderr_closed = False\<rparr>
         '' hi'' newline)
     \<noteq> [Write Stderr ((ESC # ''[1;31m'') @ '' hi'' @ (ESC # ''[0m'') @ newline), Flush Stderr]"
  by (simp add: print_fail_def colour_write_flush strip_def isspace_def)

text \<open>
  C5, amended. On rank 0, with both streams open, each method performs exactly one
  write followed by one flush of the same stream: \<^verbatim>\<open>print_fail\<close> and
  \<^verbatim>\<open>print_warn\<close> on standard error, the other four on standard output. What is
  written is the colour prefix of the method, the given string with its leading and
  trailing whitespace removed (the given string itself when it has none), the reset
  suffix and the terminator.
\<close>

theorem colorprint_rank0_output:
  assumes "rank c = 0" and "\<not> stdout_closed con" and "\<not> stderr_closed con"
  shows "print_fail c con m e
        = ([Write Stderr ((ESC # ''[1;31m'') @ strip m @ (ESC # ''[0m'') @ e), Flush Stderr], None)
    \<and> print_pass c con m e
        = ([Write Stdout ((ESC # ''[1;32m'') @ strip m @ (ESC # ''[0m'') @ e), Flush Stdout], None)
    \<and> print_warn c con m e
        = ([Write Stderr ((ESC # ''[1;33m'') @ strip m @ (ESC # ''[0m'') @ e), Flush Stderr], None)
    \<and> print_info c con m e
        = ([Write Stdout ((ESC # ''[1;34m'') @ strip m @ (ESC # ''[0m'') @ e), Flush Stdout], None)
    \<and> print_color c con m e
        = ([Write Stdout ((ESC # ''[1;36m'') @ strip m @ (ESC # ''[0m'') @ e), Flush Stdout], None)
    \<and> print_bold c con m e
        = ([Write Stdout ((ESC # ''[1;37m'') @ strip m @ (ESC # ''[0m'') @ e), Flush Stdout], None)
    \<and> (m = [] \<or> (\<not> isspace (hd m) \<and> \<not> isspace (last m)) \<longrightarrow> strip m = m)"
  using assms
  by (simp add: print_fail_def print_pass_def print_warn_def print_info_def
      print_color_def print_bold_def colour_write_flush strip_unpadded)

theorem colorprint_rank0_output_witness:
  "print_fail \<lparr>rank = 0, comm_size = 2\<rparr> \<lparr>stdout_closed = False, stderr_closed = False\<rparr>
      ''hi there'' newline
     = ([Write Stderr ((ESC # ''[1;31m'') @ ''hi there'' @ (ESC # ''[0m'') @ newline), Flush Stderr], None)
   \<and> print_pass \<lparr>rank = 0, comm_size = 2\<rparr> \<lparr>stdout_closed = False, stderr_closed = False\<rparr>
      ''hi there'' newline
     = ([Write Stdout ((ESC # ''[1;32m'') @ ''hi there'' @ (ESC # ''[0m'') @ newline), Flush Stdout], None)"
  using colorprint_rank0_output
    [of "\<lparr>rank = 0, comm_size = 2\<rparr>" "\<lparr>stdout_closed = False, stderr_closed = False\<rparr>"
        "''hi there''" newline]
  by (simp add: isspace_def)




end
